theory Spec2Isabelle
  imports Main "HOL-Library.AList"
begin

section \<open>JavaScript values\<close>

text \<open>
  The service of \<^verbatim>\<open>src/index.ts\<close> handles untyped JavaScript data: documents, query
  objects and rejection reasons are plain objects. A value is modelled by the datatype
  below; an object is an association list from property names to values, in insertion
  order. Numbers are exact integers: fractions, \<^verbatim>\<open>NaN\<close> and the loss of precision
  beyond 2^53 are outside the model (the result \<^verbatim>\<open>NaN\<close> of \<^verbatim>\<open>parseInt\<close> is
  \<open>None\<close>).
\<close>

datatype jsval =
    JUndefined
  | JNull
  | JBool bool
  | JNum int
  | JStr string
  | JArr "jsval list"
  | JObj "(string \<times> jsval) list"

type_synonym obj = "(string \<times> jsval) list"

text \<open>Truthiness, as tested by \<^verbatim>\<open>||\<close>, \<^verbatim>\<open>&&\<close> and \<^verbatim>\<open>!\<close>.\<close>

fun truthy :: "jsval \<Rightarrow> bool" where
  "truthy JUndefined = False"
| "truthy JNull = False"
| "truthy (JBool b) = b"
| "truthy (JNum n) = (n \<noteq> 0)"
| "truthy (JStr s) = (s \<noteq> [])"
| "truthy (JArr xs) = True"
| "truthy (JObj kvs) = True"

text \<open>\<^verbatim>\<open>a || b\<close>\<close>

definition js_or :: "jsval \<Rightarrow> jsval \<Rightarrow> jsval" where
  "js_or a b = (if truthy a then a else b)"

text \<open>\<^verbatim>\<open>item[k]\<close> on an object: \<^verbatim>\<open>undefined\<close> for a missing property.\<close>

definition getp :: "obj \<Rightarrow> string \<Rightarrow> jsval" where
  "getp item k = (case map_of item k of Some v \<Rightarrow> v | None \<Rightarrow> JUndefined)"

text \<open>
  \<^verbatim>\<open>v.k\<close> on any value that is read behind a truthiness guard: a primitive has none
  of the properties read here.
\<close>

fun js_prop :: "jsval \<Rightarrow> string \<Rightarrow> jsval" where
  "js_prop (JObj kvs) k = getp kvs k"
| "js_prop v k = JUndefined"

text \<open>
  lodash \<^verbatim>\<open>omit(item, keys)\<close> on flat property names, and the object spread
  \<^verbatim>\<open>{...a, ...b}\<close>: the properties of \<open>a\<close>, each property of \<open>b\<close> overwriting
  the one of the same name in place or being appended.
\<close>

definition omit :: "obj \<Rightarrow> string list \<Rightarrow> obj" where
  "omit item ks = filter (\<lambda>(k, v). k \<notin> set ks) item"

definition spread :: "obj \<Rightarrow> obj \<Rightarrow> obj" where
  "spread a b = fold (\<lambda>(k, v). AList.update k v) b a"

text \<open>\<^verbatim>\<open>T | T[]\<close>: the argument that is one value or an array of them.\<close>

datatype 'a one_or_many = One 'a | Many "'a list"

fun isArray :: "'a one_or_many \<Rightarrow> bool" where
  "isArray (One x) = False"
| "isArray (Many xs) = True"

text \<open>\<^verbatim>\<open>Array.isArray(data) ? data : [data]\<close>\<close>

fun toArray :: "'a one_or_many \<Rightarrow> 'a list" where
  "toArray (Many xs) = xs"
| "toArray (One x) = [x]"

section \<open>The service\<close>

text \<open>
  \<^verbatim>\<open>interface Paginate { max?: number; default?: number }\<close>; \<open>None\<close> is an absent
  value.
\<close>

record Paginate =
  p_max :: "int option"
  p_default :: "int option"

text \<open>
  The fields of \<^verbatim>\<open>DbService\<close> that the operations below read, for a service that is
  connected: \<^verbatim>\<open>_id\<close> (\<^verbatim>\<open>options.id || "_id"\<close>), \<^verbatim>\<open>options.expandData\<close>,
  \<^verbatim>\<open>_paginate\<close> and the name of the collection.
\<close>

record service =
  s_id :: string
  expandData :: bool
  s_paginate :: Paginate
  collection :: string

section \<open>Key mapping\<close>

text \<open>
  \<^verbatim>\<open>uuid()\<close> is a source of values outside the program. The model reads it from a
  supply \<open>uuid :: nat \<Rightarrow> string\<close> (the values it returns, in the order of the calls)
  and threads the number of calls made so far.
\<close>

definition fixKeySend_item :: "service \<Rightarrow> (nat \<Rightarrow> string) \<Rightarrow> nat \<Rightarrow> obj \<Rightarrow> obj \<times> nat" where
  "fixKeySend_item svc uuid n item =
     (let (id', n') = (if truthy (getp item (s_id svc)) then (getp item (s_id svc), n)
                       else (JStr (uuid n), Suc n))
      in (spread [(''_key'', id')] (omit item [''_id'', ''_rev'', ''_key'']), n'))"

text \<open>\<^verbatim>\<open>aData.map(...)\<close>, from left to right.\<close>

fun fixKeySend_map :: "service \<Rightarrow> (nat \<Rightarrow> string) \<Rightarrow> nat \<Rightarrow> obj list \<Rightarrow> obj list \<times> nat" where
  "fixKeySend_map svc uuid n [] = ([], n)"
| "fixKeySend_map svc uuid n (item # items) =
     (let (r, n1) = fixKeySend_item svc uuid n item;
          (rs, n2) = fixKeySend_map svc uuid n1 items
      in (r # rs, n2))"

definition fixKeySend :: "service \<Rightarrow> (nat \<Rightarrow> string) \<Rightarrow> nat \<Rightarrow> obj one_or_many \<Rightarrow> obj list \<times> nat" where
  "fixKeySend svc uuid n data =
     (let aData = toArray data
      in if length aData < 1 then (aData, n) else fixKeySend_map svc uuid n aData)"

definition fixKeyReturn :: "service \<Rightarrow> obj \<Rightarrow> obj" where
  "fixKeyReturn svc item =
     (let idObj = [(s_id svc, getp item ''_key'')];
          removeKeys = [s_id svc, ''_key''] @ (if \<not> expandData svc then [''_id'', ''_rev''] else [])
      in spread idObj (omit item removeKeys))"

section \<open>Pagination\<close>

text \<open>
  \<^verbatim>\<open>parseInt(v)\<close> with no radix: the argument is turned into a string; leading
  (ASCII) white space is skipped, then a sign, then the prefix \<^verbatim>\<open>0x\<close> (which selects base 16), and
  the longest run of digits is read. No digit gives \<^verbatim>\<open>NaN\<close>: \<open>None\<close>.
\<close>

definition is_ws :: "char \<Rightarrow> bool" where
  "is_ws c = (c \<in> set [CHR '' '', CHR 0x09, CHR 0x0A, CHR 0x0B, CHR 0x0C, CHR 0x0D])"

definition digit_of :: "char \<Rightarrow> nat option" where
  "digit_of c =
     (let n = (of_char c :: nat)
      in if 48 \<le> n \<and> n \<le> 57 then Some (n - 48)
         else if 97 \<le> n \<and> n \<le> 102 then Some (n - 87)
         else if 65 \<le> n \<and> n \<le> 70 then Some (n - 55)
         else None)"

definition is_digit :: "nat \<Rightarrow> char \<Rightarrow> bool" where
  "is_digit R c = (case digit_of c of Some d \<Rightarrow> d < R | None \<Rightarrow> False)"

definition digit_val :: "char \<Rightarrow> nat" where
  "digit_val c = (case digit_of c of Some d \<Rightarrow> d | None \<Rightarrow> 0)"

definition parse_digits :: "nat \<Rightarrow> string \<Rightarrow> int option" where
  "parse_digits R s =
     (let z = takeWhile (is_digit R) s
      in if z = [] then None else Some (int (foldl (\<lambda>a c. a * R + digit_val c) 0 z)))"

definition parseInt_str :: "string \<Rightarrow> int option" where
  "parseInt_str s =
     (let s1 = dropWhile is_ws s;
          (sign, s2) = (case s1 of
                          [] \<Rightarrow> (1, s1)
                        | c # r \<Rightarrow> if c = CHR ''-'' then (- 1, r)
                                   else if c = CHR ''+'' then (1, r) else (1, s1));
          (R, s3) = (case s2 of
                       a # b # r \<Rightarrow> if a = CHR ''0'' \<and> (b = CHR ''x'' \<or> b = CHR ''X'')
                                     then (16, r) else (10, s2)
                     | _ \<Rightarrow> (10, s2))
      in map_option (\<lambda>n. sign * n) (parse_digits R s3))"

text \<open>
  The string of an array is the strings of its elements joined by commas, so
  \<^verbatim>\<open>parseInt\<close> reads the first element; \<^verbatim>\<open>undefined\<close>, \<^verbatim>\<open>null\<close>, booleans and
  objects have strings with no leading digit.
\<close>

fun parseInt :: "jsval \<Rightarrow> int option" where
  "parseInt (JNum n) = Some n"
| "parseInt (JStr s) = parseInt_str s"
| "parseInt (JArr (x # xs)) = parseInt x"
| "parseInt v = None"

text \<open>
  \<^verbatim>\<open>params.paginate\<close> is absent, \<^verbatim>\<open>false\<close> or a policy for the call;
  \<^verbatim>\<open>params.query\<close> is absent or an object. A call with no \<^verbatim>\<open>params\<close> at all is the
  call with both absent (\<^verbatim>\<open>params = params || {}\<close>).
\<close>

datatype paginate_param = PaginateUnset | PaginateFalse | PaginateObj Paginate

record params =
  paginate :: paginate_param
  query :: "obj option"

text \<open>lodash \<^verbatim>\<open>isEmpty\<close> on a policy: it has no property.\<close>

definition isEmpty :: "Paginate \<Rightarrow> bool" where
  "isEmpty p = (p_max p = None \<and> p_default p = None)"

text \<open>\<^verbatim>\<open>a || b\<close> for an optional number \<open>a\<close> and a number \<open>b\<close>.\<close>

definition or_num :: "int option \<Rightarrow> int \<Rightarrow> int" where
  "or_num a b = (case a of None \<Rightarrow> b | Some n \<Rightarrow> if n \<noteq> 0 then n else b)"

definition injectPagination :: "service \<Rightarrow> params \<Rightarrow> params" where
  "injectPagination svc params =
     (if isEmpty (s_paginate svc) \<or> paginate params = PaginateFalse then params
      else
        let pag = (case paginate params of PaginateObj p \<Rightarrow> p | _ \<Rightarrow> s_paginate svc);
            q = (case query params of Some q \<Rightarrow> q | None \<Rightarrow> []);
            limit = (case parseInt (getp q ''$limit'') of
                       None \<Rightarrow> or_num (p_default pag) (or_num (p_max pag) 0)
                     | Some l \<Rightarrow> l);
            limit = min limit (or_num (p_max pag) (or_num (p_default pag) limit))
        in params\<lparr>query := Some (AList.update ''$limit'' (JNum limit) q)\<rparr>)"

text \<open>
  The formula of the specification for the effective limit,
  \<^verbatim>\<open>min(L or default, max or default or L)\<close>, with \<^verbatim>\<open>or\<close> read as \<^verbatim>\<open>||\<close> on
  optional numbers (an absent value and zero both give way to the right operand) and
  \<^verbatim>\<open>min\<close> undefined when an operand is absent.
\<close>

definition or_opt :: "int option \<Rightarrow> int option \<Rightarrow> int option" where
  "or_opt a b = (case a of None \<Rightarrow> b | Some n \<Rightarrow> if n \<noteq> 0 then Some n else b)"

definition spec_effective_limit :: "Paginate \<Rightarrow> int option \<Rightarrow> int option" where
  "spec_effective_limit p L =
     (case (or_opt L (p_default p), or_opt (p_max p) (or_opt (p_default p) L)) of
        (Some a, Some b) \<Rightarrow> Some (min a b)
      | _ \<Rightarrow> None)"

text \<open>
  The effective limit of a call: \<^verbatim>\<open>params.query.$limit\<close> once pagination has been
  injected.
\<close>

definition effective_limit :: "service \<Rightarrow> params \<Rightarrow> jsval" where
  "effective_limit svc params =
     (case query (injectPagination svc params) of
        Some q \<Rightarrow> getp q ''$limit''
      | None \<Rightarrow> JUndefined)"

text \<open>An optional number that is absent or not negative.\<close>

fun nonneg :: "int option \<Rightarrow> bool" where
  "nonneg None = True"
| "nonneg (Some n) = (0 \<le> n)"

section \<open>Queries and the database\<close>

text \<open>
  \<^verbatim>\<open>NullableId\<close>: \<^verbatim>\<open>null\<close>, a number or a string, with its truthiness and the text
  it has in a template string.
\<close>

datatype ident = IdNull | IdNum int | IdStr string

fun id_truthy :: "ident \<Rightarrow> bool" where
  "id_truthy IdNull = False"
| "id_truthy (IdNum n) = (n \<noteq> 0)"
| "id_truthy (IdStr s) = (s \<noteq> [])"

fun show_nat :: "nat \<Rightarrow> string" where
  "show_nat n =
     (if n < 10 then [char_of (48 + n)] else show_nat (n div 10) @ [char_of (48 + n mod 10)])"

declare show_nat.simps [simp del]

definition show_int :: "int \<Rightarrow> string" where
  "show_int i = (if i < 0 then CHR ''-'' # show_nat (nat (- i)) else show_nat (nat i))"

fun id_text :: "ident \<Rightarrow> string" where
  "id_text IdNull = ''null''"
| "id_text (IdNum n) = show_int n"
| "id_text (IdStr s) = s"

text \<open>
  The class \<^verbatim>\<open>QueryBuilder\<close> is not among the sources. Its fragments
  (\<^verbatim>\<open>filter\<close>, \<^verbatim>\<open>sort\<close>, \<^verbatim>\<open>limit\<close>, \<^verbatim>\<open>returnFilter\<close>) are made from the
  \<^verbatim>\<open>params\<close> it is constructed with, and \<^verbatim>\<open>addBindVar\<close> binds a value to a
  placeholder, so the text and the bind variables of a query are fixed by the template the
  operation fills and by the values it fills it with. A query is modelled as that: one
  constructor for each template, with the collection name, the values bound and the
  \<^verbatim>\<open>params\<close> given to the builder.
  \<^item> \<open>FindQuery\<close>: \<^verbatim>\<open>FOR doc IN @@col <filter> <sort> <limit> <returnFilter>\<close>
  \<^item> \<open>GetQuery\<close>: \<^verbatim>\<open>FOR doc IN @@col FILTER doc._key == @id <filter> <returnFilter>\<close>
  \<^item> \<open>RemoveIds\<close>: \<^verbatim>\<open>FOR doc IN @ids REMOVE doc IN @@col LET removed = OLD <returnFilter>\<close>
  \<^item> \<open>RemoveFilter\<close>:
    \<^verbatim>\<open>FOR doc IN @@col <filter> REMOVE doc IN @@col LET removed = OLD <returnFilter>\<close>
\<close>

datatype aql_query =
    FindQuery string params
  | GetQuery string ident params
  | RemoveIds "ident list" string params
  | RemoveFilter string params

text \<open>
  The database is outside the program. \<^verbatim>\<open>database.query(query, {count: paging,
  options: {fullCount: paging}})\<close> is rejected with some value or gives a cursor: its rows
  and \<^verbatim>\<open>cursor.extra.stats.fullCount\<close>. The operations take the database as a function,
  and what is proved of them holds of every database.
\<close>

record cursor =
  rows :: "obj list"
  fullCount :: jsval

type_synonym database = "aql_query \<Rightarrow> bool \<Rightarrow> jsval + cursor"

text \<open>
  What an operation throws: the \<^verbatim>\<open>NotFound\<close> of \<^verbatim>\<open>@feathersjs/errors\<close> with its
  message, the value the database rejected the query with, or the \<^verbatim>\<open>TypeError\<close> of
  reading a property of \<^verbatim>\<open>undefined\<close>.
\<close>

datatype failure = NotFound string | Rejected jsval | TypeError

text \<open>An optional message that is truthy: present and not the empty string.\<close>

fun truthy_msg :: "string option \<Rightarrow> string option" where
  "truthy_msg None = None"
| "truthy_msg (Some m) = (if m = [] then None else Some m)"

text \<open>
  \<^verbatim>\<open>error && error.isArangoError && error.errorNum === 1202\<close>: the rejection is an
  error of the database with the code 1202.
\<close>

definition isError1202 :: "jsval \<Rightarrow> bool" where
  "isError1202 error =
     (truthy error \<and> truthy (js_prop error ''isArangoError'')
      \<and> js_prop error ''errorNum'' = JNum 1202)"

definition returnMap ::
    "service \<Rightarrow> database \<Rightarrow> aql_query \<Rightarrow> string option \<Rightarrow> bool \<Rightarrow> bool \<Rightarrow> failure + jsval" where
  "returnMap svc database q errorMessage removeArray paging =
     (case database q paging of
        Inl error \<Rightarrow>
          (case (if isError1202 error then truthy_msg errorMessage else None) of
             Some m \<Rightarrow> Inl (NotFound m)
           | None \<Rightarrow> Inl (Rejected error))
      | Inr cursor \<Rightarrow>
          let result = map (fixKeyReturn svc) (rows cursor)
          in case (if length result = 0 then truthy_msg errorMessage else None) of
               Some m \<Rightarrow> Inl (NotFound m)
             | None \<Rightarrow>
                 if paging
                 then Inr (JObj [(''total'', fullCount cursor), (''data'', JArr (map JObj result))])
                 else if length result > 1 \<or> \<not> removeArray then Inr (JArr (map JObj result))
                 else Inr (case result of [] \<Rightarrow> JUndefined | r # rs \<Rightarrow> JObj r))"

section \<open>The operations\<close>

text \<open>
  The service is connected (\<^verbatim>\<open>connect\<close> gave its database and collection), and the
  builder accepts the query specification of the call.
\<close>

definition find_svc :: "service \<Rightarrow> database \<Rightarrow> params \<Rightarrow> failure + jsval" where
  "find_svc svc database params0 =
     (let params = injectPagination svc params0;
          q = FindQuery (collection svc) params
      in case returnMap svc database q None False (\<not> isEmpty (s_paginate svc)) of
           Inl e \<Rightarrow> Inl e
         | Inr result \<Rightarrow>
             if \<not> isEmpty (s_paginate svc)
             then (case query params of
                     None \<Rightarrow> Inl TypeError
                   | Some pq \<Rightarrow>
                       Inr (JObj [(''total'', js_prop result ''total''),
                                  (''limit'', js_or (getp pq ''$limit'') (JNum 0)),
                                  (''skip'', js_or (getp pq ''$skip'') (JNum 0)),
                                  (''data'', js_prop result ''data'')]))
             else Inr result)"

definition get :: "service \<Rightarrow> database \<Rightarrow> ident \<Rightarrow> params \<Rightarrow> failure + jsval" where
  "get svc database id' params =
     returnMap svc database (GetQuery (collection svc) id' params)
       (Some (''No record found for id '' @ [CHR 0x27] @ id_text id' @ [CHR 0x27])) True False"

text \<open>The argument \<^verbatim>\<open>id\<close> as a condition: an array is truthy, also the empty one.\<close>

fun arg_truthy :: "ident one_or_many \<Rightarrow> bool" where
  "arg_truthy (One x) = id_truthy x"
| "arg_truthy (Many xs) = True"

definition remove_query :: "service \<Rightarrow> ident one_or_many \<Rightarrow> params \<Rightarrow> aql_query" where
  "remove_query svc id' params =
     (let ids = toArray id'
      in if arg_truthy id' \<and> (\<not> isArray id' \<or> (isArray id' \<and> length (toArray id') > 0))
         then RemoveIds ids (collection svc) params
         else RemoveFilter (collection svc) params)"

text \<open>
  What the specification calls ids being supplied: an id that is not \<^verbatim>\<open>null\<close>, or
  an array with at least one id.
\<close>

fun ids_supplied :: "ident one_or_many \<Rightarrow> bool" where
  "ids_supplied (One x) = (x \<noteq> IdNull)"
| "ids_supplied (Many xs) = (xs \<noteq> [])"

text \<open>
  The test of the sibling \<^verbatim>\<open>_replaceOrPatch\<close> for its branch on ids:
  \<^verbatim>\<open>ids.length > 0 && (ids[0] != null || ids[0] != undefined)\<close>, where both
  comparisons are false of \<^verbatim>\<open>null\<close> alone.
\<close>

definition replaceOrPatch_by_ids :: "ident one_or_many \<Rightarrow> bool" where
  "replaceOrPatch_by_ids id' =
     (let ids = toArray id'
      in length ids > 0 \<and> (case ids of [] \<Rightarrow> False | x # xs \<Rightarrow> x \<noteq> IdNull \<or> x \<noteq> IdNull))"

definition remove :: "service \<Rightarrow> database \<Rightarrow> ident one_or_many \<Rightarrow> params \<Rightarrow> failure + jsval" where
  "remove svc database id' params =
     returnMap svc database (remove_query svc id' params) None True False"

section \<open>A collection and the queries run on it\<close>

text \<open>
  Modelled from the spec: the directives of a query specification. The class
  \<^verbatim>\<open>QueryBuilder\<close> is not among the sources; the specification reserves the keys
  \<^verbatim>\<open>sort\<close>, \<^verbatim>\<open>limit\<close>, \<^verbatim>\<open>skip\<close> and \<^verbatim>\<open>select\<close> of a query
  (\<^verbatim>\<open>$sort\<close>, \<^verbatim>\<open>$limit\<close>, \<^verbatim>\<open>$skip\<close>, \<^verbatim>\<open>$select\<close> in \<^verbatim>\<open>params.query\<close>):
  they are never treated as fields of a document.
\<close>

definition directives :: "string list" where
  "directives = [''$sort'', ''$limit'', ''$skip'', ''$select'']"

text \<open>
  Modelled from the spec: what the fragments of \<^verbatim>\<open>QueryBuilder\<close> (not among the
  sources) mean to the database. The filter fragment is a condition on a document, made
  from the keys of the query that are not directives; the sort fragment orders the rows
  as the \<^verbatim>\<open>sort\<close> directive says; the return projection maps a row as the
  \<^verbatim>\<open>select\<close> directive says. The three are left open: what is proved holds of every
  meaning of them.
\<close>

record meaning =
  filter_of :: "obj \<Rightarrow> obj \<Rightarrow> bool"
  sort_of :: "jsval \<Rightarrow> obj list \<Rightarrow> obj list"
  select_of :: "jsval \<Rightarrow> obj \<Rightarrow> obj"

text \<open>The query specification of a call: \<^verbatim>\<open>params.query\<close>, or the empty one.\<close>

definition spec_of :: "params \<Rightarrow> obj" where
  "spec_of p = (case query p of Some q \<Rightarrow> q | None \<Rightarrow> [])"

text \<open>
  Modelled from the spec: the rows of the collection that the filter fragment of
  \<^verbatim>\<open>QueryBuilder\<close> (not among the sources) keeps, and their number, which is the
  full count: the total of matching rows that the database reports when a full count is
  requested.
\<close>

definition matching :: "meaning \<Rightarrow> obj list \<Rightarrow> obj \<Rightarrow> obj list" where
  "matching m docs q = filter (filter_of m (omit q directives)) docs"

definition full_count :: "meaning \<Rightarrow> obj list \<Rightarrow> obj \<Rightarrow> nat" where
  "full_count m docs q = length (matching m docs q)"

text \<open>
  Modelled from the spec: the limit fragment of \<^verbatim>\<open>QueryBuilder\<close> (not among the
  sources) as the database applies it: an offset, which is \<^verbatim>\<open>skip\<close> (0 by default),
  and a count, which is \<^verbatim>\<open>limit\<close> (unbounded by default). A negative offset or count
  selects as 0 does.
\<close>

definition apply_limit :: "obj \<Rightarrow> obj list \<Rightarrow> obj list" where
  "apply_limit q xs =
     (let offset = (case parseInt (getp q ''$skip'') of Some s \<Rightarrow> s | None \<Rightarrow> 0)
      in case parseInt (getp q ''$limit'') of
           Some n \<Rightarrow> take (nat n) (drop (nat offset) xs)
         | None \<Rightarrow> drop (nat offset) xs)"

text \<open>The value of an id that a query compares with \<^verbatim>\<open>_key\<close>.\<close>

fun id_val :: "ident \<Rightarrow> jsval" where
  "id_val IdNull = JNull"
| "id_val (IdNum n) = JNum n"
| "id_val (IdStr s) = JStr s"

text \<open>
  Modelled from the spec: the execution of a query by the database, which is outside the
  sources, on the documents \<open>docs\<close> of the collection of the service. A query of
  \<^verbatim>\<open>find\<close> filters, sorts, limits and projects the rows; one of \<^verbatim>\<open>get\<close> keeps
  the rows of the given key that pass the filter; one of \<^verbatim>\<open>remove\<close> returns the
  documents it removes (\<^verbatim>\<open>LET removed = OLD\<close>): those of the given keys, or those
  that pass the filter. The cursor has the full count when it is requested.
\<close>

definition arango :: "meaning \<Rightarrow> obj list \<Rightarrow> database" where
  "arango m docs q paging =
     (case q of
        FindQuery col p \<Rightarrow>
          Inr \<lparr>rows = map (select_of m (getp (spec_of p) ''$select''))
                        (apply_limit (spec_of p)
                           (sort_of m (getp (spec_of p) ''$sort'') (matching m docs (spec_of p)))),
               fullCount = (if paging then JNum (int (full_count m docs (spec_of p)))
                            else JUndefined)\<rparr>
      | GetQuery col i p \<Rightarrow>
          Inr \<lparr>rows = map (select_of m (getp (spec_of p) ''$select''))
                        (filter (\<lambda>d. getp d ''_key'' = id_val i) (matching m docs (spec_of p))),
               fullCount = JUndefined\<rparr>
      | RemoveIds ids col p \<Rightarrow>
          Inr \<lparr>rows = map (select_of m (getp (spec_of p) ''$select''))
                        (concat (map (\<lambda>i. filter (\<lambda>d. getp d ''_key'' = id_val i) docs) ids)),
               fullCount = JUndefined\<rparr>
      | RemoveFilter col p \<Rightarrow>
          Inr \<lparr>rows = map (select_of m (getp (spec_of p) ''$select''))
                        (matching m docs (spec_of p)),
               fullCount = JUndefined\<rparr>)"

text \<open>
  Modelled from the spec: the documents of the collection once the database has run the
  query. Only a query of \<^verbatim>\<open>remove\<close> changes them.
\<close>

definition arango_after :: "meaning \<Rightarrow> obj list \<Rightarrow> aql_query \<Rightarrow> obj list" where
  "arango_after m docs q =
     (case q of
        RemoveIds ids col p \<Rightarrow> filter (\<lambda>d. getp d ''_key'' \<notin> set (map id_val ids)) docs
      | RemoveFilter col p \<Rightarrow> filter (\<lambda>d. \<not> filter_of m (omit (spec_of p) directives) d) docs
      | FindQuery col p \<Rightarrow> docs
      | GetQuery col i p \<Rightarrow> docs)"

section \<open>Examples\<close>

text \<open>
  The service of the specification's examples: the default identifier field \<^verbatim>\<open>_id\<close>
  and the policy \<^verbatim>\<open>{default: 10, max: 50}\<close>.
\<close>

definition example_service :: service where
  "example_service =
     \<lparr>s_id = ''_id'', expandData = False,
      s_paginate = \<lparr>p_max = Some 50, p_default = Some 10\<rparr>, collection = ''messages''\<rparr>"

text \<open>
  A database that answers every query with the given rows and full count, one that
  rejects every query with the given value, and a call with no parameters.
\<close>

definition db_rows :: "obj list \<Rightarrow> jsval \<Rightarrow> database" where
  "db_rows rs n = (\<lambda>q paging. Inr \<lparr>rows = rs, fullCount = n\<rparr>)"

definition db_rejects :: "jsval \<Rightarrow> database" where
  "db_rejects e = (\<lambda>q paging. Inl e)"

definition no_params :: params where
  "no_params = \<lparr>paginate = PaginateUnset, query = None\<rparr>"

text \<open>
  Modelled from the spec: the meaning of the fragments of \<^verbatim>\<open>QueryBuilder\<close> (not
  among the sources) for a query of bare values with no \<^verbatim>\<open>sort\<close> and no
  \<^verbatim>\<open>select\<close>: each field of the query is an equality on that field of the document,
  the fields are combined with AND (no field: no filtering), the rows keep their order and
  are returned whole.
\<close>

definition plain :: meaning where
  "plain = \<lparr>filter_of = (\<lambda>spec d. list_all (\<lambda>(k, v). getp d k = v) spec),
            sort_of = (\<lambda>s xs. xs),
            select_of = (\<lambda>s d. d)\<rparr>"

section \<open>Objects as association lists\<close>

lemma map_of_omit: "map_of (omit item ks) k = (if k \<in> set ks then None else map_of item k)"
  unfolding omit_def by (induction item) auto

lemma keys_omit: "fst ` set (omit item ks) = fst ` set item - set ks"
  unfolding omit_def by force

lemma distinct_omit: "distinct (map fst item) \<Longrightarrow> distinct (map fst (omit item ks))"
  unfolding omit_def by (simp add: distinct_map_filter)

lemma update_append_fresh:
  "k \<notin> fst ` set a \<Longrightarrow> AList.update k v a = a @ [(k, v)]"
  by (induction a) auto

lemma fold_update_fresh:
  "distinct (map fst b) \<Longrightarrow> fst ` set a \<inter> fst ` set b = {} \<Longrightarrow>
     fold (\<lambda>(k, v). AList.update k v) b a = a @ b"
proof (induction b arbitrary: a)
  case Nil
  show ?case by simp
next
  case (Cons p b)
  obtain k v where p: "p = (k, v)" by (cases p)
  from Cons.prems have fresh: "k \<notin> fst ` set a" and d: "distinct (map fst b)"
    and kb: "k \<notin> fst ` set b" and disj: "fst ` set a \<inter> fst ` set b = {}"
    by (auto simp: p)
  have "fst ` set (a @ [(k, v)]) \<inter> fst ` set b = {}"
    using disj kb by auto
  from Cons.IH [OF d this] show ?case
    by (simp add: p update_append_fresh [OF fresh])
qed

lemma spread_fresh:
  "distinct (map fst b) \<Longrightarrow> fst ` set a \<inter> fst ` set b = {} \<Longrightarrow> spread a b = a @ b"
  unfolding spread_def by (rule fold_update_fresh)

lemma keys_spread: "fst ` set (spread a b) = fst ` set a \<union> fst ` set b"
  unfolding spread_def
proof (induction b arbitrary: a)
  case Nil
  show ?case by simp
next
  case (Cons p b)
  obtain k v where p: "p = (k, v)" by (cases p)
  show ?case by (simp add: p Cons.IH AList.dom_update Un_assoc)
qed

lemma spread_Cons:
  "k \<notin> fst ` set b \<Longrightarrow> spread ((k, v) # a) b = (k, v) # spread a b"
  unfolding spread_def
proof (induction b arbitrary: a)
  case Nil
  show ?case by simp
next
  case (Cons p b)
  obtain k' v' where p: "p = (k', v')" by (cases p)
  from Cons.prems have "k' \<noteq> k" and "k \<notin> fst ` set b" by (auto simp: p)
  then show ?case using Cons.IH by (simp add: p)
qed

section \<open>Key mapping: what is sent and what is returned\<close>

lemma fixKeyReturn_shape:
  "fixKeyReturn svc item =
     (s_id svc, getp item ''_key'') #
       spread [] (omit item ([s_id svc, ''_key''] @ (if \<not> expandData svc then [''_id'', ''_rev''] else [])))"
  unfolding fixKeyReturn_def Let_def
  by (rule spread_Cons) (simp add: keys_omit)

lemma fixKeySend_item_shape:
  "fst (fixKeySend_item svc uuid n item) =
     (''_key'', if truthy (getp item (s_id svc)) then getp item (s_id svc) else JStr (uuid n)) #
       spread [] (omit item [''_id'', ''_rev'', ''_key''])"
  unfolding fixKeySend_item_def
  by (simp add: spread_Cons keys_omit)

lemma fixKeySend_item_count:
  "snd (fixKeySend_item svc uuid n item) = (if truthy (getp item (s_id svc)) then n else Suc n)"
  unfolding fixKeySend_item_def by simp

lemma fixKeySend_map_nth:
  "i < length items \<Longrightarrow>
     fst (fixKeySend_map svc uuid n items) ! i =
       fst (fixKeySend_item svc uuid
              (n + length (filter (\<lambda>x. \<not> truthy (getp x (s_id svc))) (take i items)))
              (items ! i))"
proof (induction items arbitrary: n i)
  case Nil
  then show ?case by simp
next
  case (Cons item items)
  show ?case
  proof (cases i)
    case 0
    then show ?thesis by (simp split: prod.splits)
  next
    case (Suc j)
    with Cons.prems have j: "j < length items" by simp
    have "fst (fixKeySend_map svc uuid n (item # items)) ! i =
            fst (fixKeySend_map svc uuid (snd (fixKeySend_item svc uuid n item)) items) ! j"
      by (simp add: Suc split: prod.splits)
    also have "\<dots> = fst (fixKeySend_item svc uuid
              (snd (fixKeySend_item svc uuid n item)
                 + length (filter (\<lambda>x. \<not> truthy (getp x (s_id svc))) (take j items)))
              (items ! j))"
      by (rule Cons.IH [OF j])
    finally show ?thesis
      by (simp add: Suc fixKeySend_item_count)
  qed
qed

lemma fixKeySend_nth:
  assumes "i < length (toArray data)"
  shows "fst (fixKeySend svc uuid n data) ! i =
       fst (fixKeySend_item svc uuid
              (n + length (filter (\<lambda>x. \<not> truthy (getp x (s_id svc))) (take i (toArray data))))
              (toArray data ! i))"
proof -
  from assms have "\<not> length (toArray data) < 1" by linarith
  then have "fixKeySend svc uuid n data = fixKeySend_map svc uuid n (toArray data)"
    by (simp add: fixKeySend_def)
  then show ?thesis using fixKeySend_map_nth [OF assms] by simp
qed

text \<open>
  C10. \<^verbatim>\<open>fixKeySend\<close> always returns an array (the result is a list): one record that
  is not an array gives the one-element array of the transformed record, and the empty
  array is returned as it is, with no identifier generated.
\<close>

theorem fixKeySend_returns_array:
  "fst (fixKeySend svc uuid n (One item)) = [fst (fixKeySend_item svc uuid n item)]
   \<and> fixKeySend svc uuid n (Many []) = ([], n)"
  by (simp add: fixKeySend_def split: prod.splits)

text \<open>
  C7 does not hold as it is written: \<^verbatim>\<open>fixKeySend\<close> omits the three fixed names
  \<^verbatim>\<open>_id\<close>, \<^verbatim>\<open>_rev\<close> and \<^verbatim>\<open>_key\<close>, not the configured identifier field. With the
  identifier field \<^verbatim>\<open>id\<close>, the record \<^verbatim>\<open>{id: "abc", name: "a"}\<close> is sent with its
  \<^verbatim>\<open>id\<close> field still in the payload.
\<close>

theorem fixKeySend_keeps_custom_id_field:
  "fst (fixKeySend (example_service\<lparr>s_id := ''id''\<rparr>) (\<lambda>n. ''generated'') 0
          (One [(''id'', JStr ''abc''), (''name'', JStr ''a'')]))
     = [[(''_key'', JStr ''abc''), (''id'', JStr ''abc''), (''name'', JStr ''a'')]]"
  by (simp add: fixKeySend_def fixKeySend_item_def example_service_def getp_def omit_def spread_def)

text \<open>
  C7, amended. For the record at every position of the input, \<^verbatim>\<open>fixKeySend\<close> gives a
  record that starts with the internal key \<^verbatim>\<open>_key\<close>, set to the value at the
  configured identifier field when that value is truthy and to the next generated value
  otherwise (each generated value is a new call of \<^verbatim>\<open>uuid\<close>: its index counts the
  earlier records of the batch that needed one). The rest of the record has the fields
  of the input without \<^verbatim>\<open>_id\<close>, \<^verbatim>\<open>_rev\<close> and \<^verbatim>\<open>_key\<close>, and is the input
  without them when the input is an object (its names are distinct). So the identifier
  field is removed from the payload when it is named \<^verbatim>\<open>_id\<close> (the default) or
  \<^verbatim>\<open>_key\<close>.
\<close>

theorem fixKeySend_key_and_payload:
  assumes "i < length (toArray data)"
  shows "\<exists>body. fst (fixKeySend svc uuid n data) ! i =
           (''_key'', if truthy (getp (toArray data ! i) (s_id svc)) then getp (toArray data ! i) (s_id svc)
                      else JStr (uuid (n + length (filter (\<lambda>x. \<not> truthy (getp x (s_id svc))) (take i (toArray data)))))) # body
         \<and> fst ` set body = fst ` set (toArray data ! i) - {''_id'', ''_rev'', ''_key''}
         \<and> (distinct (map fst (toArray data ! i)) \<longrightarrow> body = omit (toArray data ! i) [''_id'', ''_rev'', ''_key''])"
proof -
  let ?item = "toArray data ! i"
  let ?body = "spread [] (omit ?item [''_id'', ''_rev'', ''_key''])"
  have keys: "fst ` set ?body = fst ` set ?item - {''_id'', ''_rev'', ''_key''}"
    by (simp add: keys_spread keys_omit)
  have same: "distinct (map fst ?item) \<longrightarrow> ?body = omit ?item [''_id'', ''_rev'', ''_key'']"
    by (simp add: spread_fresh distinct_omit)
  show ?thesis
    unfolding fixKeySend_nth [OF assms] fixKeySend_item_shape
    using keys same by blast
qed

theorem fixKeySend_key_and_payload_witness:
  "(1::nat) < length (toArray (Many [[(''name'', JStr ''a'')],
                                      [(''_id'', JStr ''k7''), (''_rev'', JStr ''r''), (''name'', JStr ''b'')]]))
   \<and> fst (fixKeySend example_service (\<lambda>n. ''generated'') 0
            (Many [[(''name'', JStr ''a'')],
                   [(''_id'', JStr ''k7''), (''_rev'', JStr ''r''), (''name'', JStr ''b'')]])) ! 1
       = [(''_key'', JStr ''k7''), (''name'', JStr ''b'')]"
  using fixKeySend_key_and_payload [of 1
      "Many [[(''name'', JStr ''a'')],
             [(''_id'', JStr ''k7''), (''_rev'', JStr ''r''), (''name'', JStr ''b'')]]"
      example_service "\<lambda>n. ''generated''" 0]
  by (auto simp: example_service_def getp_def omit_def)

text \<open>
  C9. The record \<^verbatim>\<open>fixKeyReturn\<close> gives is the identifier field, holding the value of
  \<^verbatim>\<open>_key\<close> in the input, followed by a body with no field \<^verbatim>\<open>_key\<close>, whatever
  \<^verbatim>\<open>expandData\<close> is; reading the identifier field of the result gives the input's
  \<^verbatim>\<open>_key\<close>. The only \<^verbatim>\<open>_key\<close> a result can have is the identifier field itself,
  when the service is configured with \<^verbatim>\<open>_key\<close> as its name.
\<close>

theorem fixKeyReturn_hides_key:
  "(\<exists>body. fixKeyReturn svc item = (s_id svc, getp item ''_key'') # body
            \<and> ''_key'' \<notin> fst ` set body)
   \<and> getp (fixKeyReturn svc item) (s_id svc) = getp item ''_key''
   \<and> (s_id svc \<noteq> ''_key'' \<longrightarrow> ''_key'' \<notin> fst ` set (fixKeyReturn svc item))"
proof -
  let ?body = "spread [] (omit item ([s_id svc, ''_key''] @ (if \<not> expandData svc then [''_id'', ''_rev''] else [])))"
  have shape: "fixKeyReturn svc item = (s_id svc, getp item ''_key'') # ?body"
    by (rule fixKeyReturn_shape)
  have nokey: "''_key'' \<notin> fst ` set ?body"
    by (simp add: keys_spread keys_omit)
  have a: "\<exists>body. fixKeyReturn svc item = (s_id svc, getp item ''_key'') # body
            \<and> ''_key'' \<notin> fst ` set body"
    using shape nokey by blast
  have b: "getp (fixKeyReturn svc item) (s_id svc) = getp item ''_key''"
    by (simp add: shape getp_def)
  have c: "s_id svc \<noteq> ''_key'' \<longrightarrow> ''_key'' \<notin> fst ` set (fixKeyReturn svc item)"
    using nokey by (auto simp: shape)
  from a b c show ?thesis by blast
qed

theorem fixKeyReturn_hides_key_witness:
  "''_id'' \<noteq> ''_key''
   \<and> ''_key'' \<notin> fst ` set (fixKeyReturn (example_service\<lparr>expandData := True\<rparr>)
        [(''_key'', JStr ''k1''), (''_rev'', JStr ''r1''), (''name'', JStr ''a'')])
   \<and> getp (fixKeyReturn (example_service\<lparr>expandData := True\<rparr>)
        [(''_key'', JStr ''k1''), (''_rev'', JStr ''r1''), (''name'', JStr ''a'')]) ''_id'' = JStr ''k1''"
  using fixKeyReturn_hides_key [of "example_service\<lparr>expandData := True\<rparr>"
        "[(''_key'', JStr ''k1''), (''_rev'', JStr ''r1''), (''name'', JStr ''a'')]"]
  by (simp add: example_service_def getp_def)

text \<open>
  C3. Sending a record and mapping what was sent back for reading keeps every field that
  is not one of the internal names \<^verbatim>\<open>_id\<close>, \<^verbatim>\<open>_rev\<close>, \<^verbatim>\<open>_key\<close> (the identifier
  field is the second part), and gives back the value of the identifier field when the
  record supplied one: a truthy value, since \<^verbatim>\<open>fixKeySend\<close> takes an absent or falsy
  one as not supplied and generates a key. The record is an object: its names are
  distinct.
\<close>

theorem roundtrip_restores:
  assumes i: "i < length (toArray data)" and d: "distinct (map fst (toArray data ! i))"
  shows "(\<forall>k. k \<notin> {''_id'', ''_rev'', ''_key'', s_id svc} \<longrightarrow>
            map_of (fixKeyReturn svc (fst (fixKeySend svc uuid n data) ! i)) k = map_of (toArray data ! i) k)
       \<and> (truthy (getp (toArray data ! i) (s_id svc)) \<longrightarrow>
            getp (fixKeyReturn svc (fst (fixKeySend svc uuid n data) ! i)) (s_id svc)
              = getp (toArray data ! i) (s_id svc))"
proof -
  let ?item = "toArray data ! i"
  let ?m = "n + length (filter (\<lambda>x. \<not> truthy (getp x (s_id svc))) (take i (toArray data)))"
  let ?key = "if truthy (getp ?item (s_id svc)) then getp ?item (s_id svc) else JStr (uuid ?m)"
  let ?sent = "(''_key'', ?key) # omit ?item [''_id'', ''_rev'', ''_key'']"
  let ?rm = "[s_id svc, ''_key''] @ (if \<not> expandData svc then [''_id'', ''_rev''] else [])"
  have sent: "fst (fixKeySend svc uuid n data) ! i = ?sent"
    unfolding fixKeySend_nth [OF i] fixKeySend_item_shape
    by (simp add: spread_fresh distinct_omit d)
  have dsent: "distinct (map fst ?sent)"
    using distinct_omit [OF d, of "[''_id'', ''_rev'', ''_key'']"]
    by (simp add: keys_omit)
  have d2: "distinct (map fst (omit ?sent ?rm))"
    by (rule distinct_omit [OF dsent])
  have sp: "spread [] (omit ?sent ?rm) = omit ?sent ?rm"
    using spread_fresh [OF d2, of "[]"] by simp
  have k: "getp ?sent ''_key'' = ?key"
    unfolding getp_def by simp
  have ret: "fixKeyReturn svc ?sent = (s_id svc, ?key) # omit ?sent ?rm"
    unfolding fixKeyReturn_shape sp k by (rule refl)
  have fields: "\<forall>k. k \<notin> {''_id'', ''_rev'', ''_key'', s_id svc} \<longrightarrow>
            map_of (fixKeyReturn svc ?sent) k = map_of ?item k"
    unfolding ret by (simp add: map_of_omit)
  have ident: "truthy (getp ?item (s_id svc)) \<longrightarrow>
            getp (fixKeyReturn svc ?sent) (s_id svc) = getp ?item (s_id svc)"
    unfolding ret by (simp add: getp_def)
  from fields ident show ?thesis unfolding sent by blast
qed

theorem roundtrip_restores_witness:
  "(0::nat) < length (toArray (One [(''_id'', JStr ''abc''), (''name'', JStr ''a''), (''_rev'', JStr ''r'')]))
   \<and> distinct (map fst [(''_id'', JStr ''abc''), (''name'', JStr ''a''), (''_rev'', JStr ''r'')])
   \<and> ''name'' \<notin> {''_id'', ''_rev'', ''_key'', s_id example_service}
   \<and> truthy (getp [(''_id'', JStr ''abc''), (''name'', JStr ''a''), (''_rev'', JStr ''r'')] (s_id example_service))
   \<and> map_of (fixKeyReturn example_service
         (fst (fixKeySend example_service (\<lambda>n. ''generated'') 0
                 (One [(''_id'', JStr ''abc''), (''name'', JStr ''a''), (''_rev'', JStr ''r'')])) ! 0)) ''name''
       = Some (JStr ''a'')
   \<and> getp (fixKeyReturn example_service
         (fst (fixKeySend example_service (\<lambda>n. ''generated'') 0
                 (One [(''_id'', JStr ''abc''), (''name'', JStr ''a''), (''_rev'', JStr ''r'')])) ! 0)) ''_id''
       = JStr ''abc''"
  using roundtrip_restores [of 0
      "One [(''_id'', JStr ''abc''), (''name'', JStr ''a''), (''_rev'', JStr ''r'')]"
      example_service "\<lambda>n. ''generated''" 0]
  by (simp add: example_service_def getp_def)

section \<open>Pagination: the effective limit\<close>

lemma getp_update_same: "getp (AList.update k v q) k = v"
  by (simp add: getp_def AList.update_conv')


lemma injectPagination_active:
  assumes "\<not> isEmpty (s_paginate svc)" and "paginate params \<noteq> PaginateFalse"
  shows "injectPagination svc params =
     params\<lparr>query := Some (AList.update ''$limit''
        (JNum (let pag = (case paginate params of PaginateObj p \<Rightarrow> p | _ \<Rightarrow> s_paginate svc);
                   q = (case query params of Some q \<Rightarrow> q | None \<Rightarrow> []);
                   l = (case parseInt (getp q ''$limit'') of
                          None \<Rightarrow> or_num (p_default pag) (or_num (p_max pag) 0)
                        | Some n \<Rightarrow> n)
               in min l (or_num (p_max pag) (or_num (p_default pag) l))))
        (case query params of Some q \<Rightarrow> q | None \<Rightarrow> []))\<rparr>"
  using assms unfolding injectPagination_def Let_def by simp

lemma effective_limit_value:
  assumes "\<not> isEmpty (s_paginate svc)" and "paginate params \<noteq> PaginateFalse"
    and "pag = (case paginate params of PaginateObj p \<Rightarrow> p | _ \<Rightarrow> s_paginate svc)"
    and "L = parseInt (getp (case query params of Some q \<Rightarrow> q | None \<Rightarrow> []) ''$limit'')"
    and "l = (case L of Some n \<Rightarrow> n | None \<Rightarrow> or_num (p_default pag) (or_num (p_max pag) 0))"
  shows "effective_limit svc params = JNum (min l (or_num (p_max pag) (or_num (p_default pag) l)))"
  unfolding effective_limit_def injectPagination_active [OF assms(1,2)] assms(5) assms(4) assms(3)
  by (simp add: getp_update_same Let_def)

lemma spec_formula_agrees:
  assumes "(\<exists>n. L = Some n \<and> n \<noteq> 0) \<or> (L = None \<and> (\<exists>d. p_default pag = Some d \<and> d \<noteq> 0))"
    and "l = (case L of Some n \<Rightarrow> n | None \<Rightarrow> or_num (p_default pag) (or_num (p_max pag) 0))"
  shows "spec_effective_limit pag L = Some (min l (or_num (p_max pag) (or_num (p_default pag) l)))"
  using assms unfolding spec_effective_limit_def or_opt_def or_num_def
  by (auto split: option.splits)

lemma clamp_nonneg:
  assumes "nonneg L" and "nonneg (p_default pag)" and "nonneg (p_max pag)"
    and "l = (case L of Some n \<Rightarrow> n | None \<Rightarrow> or_num (p_default pag) (or_num (p_max pag) 0))"
  shows "0 \<le> min l (or_num (p_max pag) (or_num (p_default pag) l))"
proof -
  have a: "\<And>a b. nonneg a \<Longrightarrow> 0 \<le> b \<Longrightarrow> 0 \<le> or_num a b"
    by (auto simp: or_num_def split: option.splits)
  have l0: "0 \<le> l"
    using assms by (cases L) (simp_all add: a)
  have "0 \<le> or_num (p_max pag) (or_num (p_default pag) l)"
    by (intro a assms l0)
  with l0 show ?thesis by simp
qed

text \<open>
  C1 does not hold as it is written: nothing in \<^verbatim>\<open>_injectPagination\<close> keeps a limit
  from being negative. With the policy \<^verbatim>\<open>{default: 10, max: 50}\<close>, the requested limit
  \<^verbatim>\<open>-5\<close> is the effective limit.
\<close>

theorem effective_limit_negative:
  "effective_limit example_service
     \<lparr>paginate = PaginateUnset, query = Some [(''$limit'', JNum (- 5))]\<rparr> = JNum (- 5)
   \<and> (- 5 :: int) < 0"
  by (simp add: effective_limit_def injectPagination_def example_service_def isEmpty_def
        getp_def or_num_def)

text \<open>
  C1, amended. When pagination is injected (the service has a policy and the call does
  not set \<^verbatim>\<open>paginate\<close> to \<^verbatim>\<open>false\<close>), with \<open>pag\<close> the policy of the call and
  \<open>L\<close> the requested limit as \<^verbatim>\<open>parseInt\<close> reads it, the effective limit is
  \<^verbatim>\<open>min(l, max || default || l)\<close>, where \<open>l\<close> is \<open>L\<close> when it is a number and
  \<^verbatim>\<open>default || max || 0\<close> otherwise. This is the specification's
  \<^verbatim>\<open>min(L or default, max or default or L)\<close> whenever \<open>L\<close> is a number other than
  zero, or \<open>L\<close> is absent and the policy has a default other than zero. It is not
  negative when the requested limit and the two values of the policy are not negative.
  The two examples of the specification hold: with \<^verbatim>\<open>{default: 10, max: 50}\<close>, the
  requested limit 999 gives 50 and an absent one gives 10.
\<close>

theorem effective_limit_clamp:
  assumes "\<not> isEmpty (s_paginate svc)" and "paginate params \<noteq> PaginateFalse"
    and "pag = (case paginate params of PaginateObj p \<Rightarrow> p | _ \<Rightarrow> s_paginate svc)"
    and "L = parseInt (getp (case query params of Some q \<Rightarrow> q | None \<Rightarrow> []) ''$limit'')"
    and "l = (case L of Some n \<Rightarrow> n | None \<Rightarrow> or_num (p_default pag) (or_num (p_max pag) 0))"
  shows "effective_limit svc params = JNum (min l (or_num (p_max pag) (or_num (p_default pag) l)))
     \<and> ((\<exists>n. L = Some n \<and> n \<noteq> 0) \<or> (L = None \<and> (\<exists>d. p_default pag = Some d \<and> d \<noteq> 0)) \<longrightarrow>
          spec_effective_limit pag L = Some (min l (or_num (p_max pag) (or_num (p_default pag) l))))
     \<and> (nonneg L \<and> nonneg (p_default pag) \<and> nonneg (p_max pag) \<longrightarrow>
          0 \<le> min l (or_num (p_max pag) (or_num (p_default pag) l)))
     \<and> effective_limit example_service
          \<lparr>paginate = PaginateUnset, query = Some [(''$limit'', JNum 999)]\<rparr> = JNum 50
     \<and> effective_limit example_service \<lparr>paginate = PaginateUnset, query = None\<rparr> = JNum 10"
proof -
  have ex: "\<not> isEmpty (s_paginate example_service)"
    by (simp add: example_service_def isEmpty_def)
  have e1: "effective_limit example_service
          \<lparr>paginate = PaginateUnset, query = Some [(''$limit'', JNum 999)]\<rparr> = JNum 50"
    by (subst effective_limit_value [OF ex _ refl refl refl])
       (simp_all add: example_service_def getp_def or_num_def)
  have e2: "effective_limit example_service \<lparr>paginate = PaginateUnset, query = None\<rparr> = JNum 10"
    by (subst effective_limit_value [OF ex _ refl refl refl])
       (simp_all add: example_service_def getp_def or_num_def)
  show ?thesis
    using effective_limit_value [OF assms] spec_formula_agrees [OF _ assms(5)]
      clamp_nonneg [OF _ _ _ assms(5)] e1 e2
    by blast
qed

theorem effective_limit_clamp_witness:
  "\<not> isEmpty (s_paginate example_service)
   \<and> paginate \<lparr>paginate = PaginateUnset, query = Some [(''$limit'', JNum 20)]\<rparr> \<noteq> PaginateFalse
   \<and> effective_limit example_service
        \<lparr>paginate = PaginateUnset, query = Some [(''$limit'', JNum 20)]\<rparr> = JNum 20
   \<and> spec_effective_limit (s_paginate example_service) (Some 20) = Some 20"
proof -
  have a: "\<not> isEmpty (s_paginate example_service)"
    by (simp add: example_service_def isEmpty_def)
  have b: "paginate \<lparr>paginate = PaginateUnset, query = Some [(''$limit'', JNum 20)]\<rparr> \<noteq> PaginateFalse"
    by simp
  show ?thesis
    using a b effective_limit_clamp [OF a b refl refl refl]
    by (simp add: example_service_def getp_def or_num_def)
qed

section \<open>Result normalisation\<close>

lemma truthy_msg_Some: "truthy_msg msg = Some m \<Longrightarrow> msg = Some m"
  by (cases msg) (auto split: if_splits)

lemma returnMap_rejected:
  assumes "database q pg = Inl e"
  shows "returnMap svc database q msg ra pg =
       (case (if isError1202 e then truthy_msg msg else None) of
          Some m \<Rightarrow> Inl (NotFound m)
        | None \<Rightarrow> Inl (Rejected e))"
  unfolding returnMap_def using assms by simp

lemma returnMap_cursor:
  assumes "database q pg = Inr c"
  shows "returnMap svc database q msg ra pg =
       (case (if rows c = [] then truthy_msg msg else None) of
          Some m \<Rightarrow> Inl (NotFound m)
        | None \<Rightarrow>
            if pg
            then Inr (JObj [(''total'', fullCount c),
                            (''data'', JArr (map (\<lambda>r. JObj (fixKeyReturn svc r)) (rows c)))])
            else if length (rows c) > 1 \<or> \<not> ra
            then Inr (JArr (map (\<lambda>r. JObj (fixKeyReturn svc r)) (rows c)))
            else Inr (case rows c of [] \<Rightarrow> JUndefined | r # rs \<Rightarrow> JObj (fixKeyReturn svc r)))"
proof (cases "rows c")
  case Nil
  show ?thesis
    unfolding returnMap_def using assms Nil
    by (cases "truthy_msg msg") (simp_all add: Let_def)
next
  case (Cons r rs)
  show ?thesis
    unfolding returnMap_def using assms Cons
    by (simp add: Let_def comp_def)
qed

lemma returnMap_NotFound_iff:
  "(\<exists>m. returnMap svc database q msg ra pg = Inl (NotFound m)) \<longleftrightarrow>
     (truthy_msg msg \<noteq> None \<and>
       ((\<exists>e. database q pg = Inl e \<and> isError1202 e)
        \<or> (\<exists>c. database q pg = Inr c \<and> map (fixKeyReturn svc) (rows c) = [])))"
proof (cases "database q pg")
  case (Inl e)
  show ?thesis
    using Inl returnMap_rejected [of database q pg e svc msg ra]
    by (cases "truthy_msg msg") simp_all
next
  case (Inr c)
  show ?thesis
    using Inr returnMap_cursor [of database q pg c svc msg ra]
    by (cases "truthy_msg msg") simp_all
qed

lemma returnMap_NotFound_message:
  assumes "returnMap svc database q msg ra pg = Inl (NotFound m)"
  shows "msg = Some m"
proof (cases "database q pg")
  case (Inl e)
  show ?thesis
    using assms returnMap_rejected [of database q pg e svc msg ra] Inl
    by (auto split: option.splits if_splits dest: truthy_msg_Some)
next
  case (Inr c)
  show ?thesis
    using assms returnMap_cursor [of database q pg c svc msg ra] Inr
    by (auto split: option.splits if_splits dest: truthy_msg_Some)
qed

lemma returnMap_passthrough:
  assumes "database q pg = Inl e" and "\<not> (isError1202 e \<and> truthy_msg msg \<noteq> None)"
  shows "returnMap svc database q msg ra pg = Inl (Rejected e)"
  using assms returnMap_rejected [of database q pg e svc msg ra]
  by (auto split: option.splits)

lemma get_no_document:
  assumes "database (GetQuery (collection svc) id' params) False = Inr c" and "rows c = []"
  shows "get svc database id' params =
       Inl (NotFound (''No record found for id '' @ [CHR 0x27] @ id_text id' @ [CHR 0x27]))"
  unfolding get_def
  using assms returnMap_cursor [of database "GetQuery (collection svc) id' params" False c svc]
  by simp

text \<open>
  C2. \<^verbatim>\<open>_returnMap\<close> raises \<^verbatim>\<open>NotFound\<close> exactly when a message was supplied
  (a truthy one: present and not empty) and either the database rejected the query with
  its error 1202 or the mapped result is empty; the \<^verbatim>\<open>NotFound\<close> carries that
  message; every other rejection is thrown again as it was; and \<^verbatim>\<open>get\<close> with an id
  for which the database returns no row raises \<^verbatim>\<open>NotFound\<close> with the message
  \<^verbatim>\<open>No record found for id '<id>'\<close>.
\<close>

theorem returnMap_raises_NotFound:
  "((\<exists>m. returnMap svc database q msg ra pg = Inl (NotFound m)) \<longleftrightarrow>
     (truthy_msg msg \<noteq> None \<and>
       ((\<exists>e. database q pg = Inl e \<and> isError1202 e)
        \<or> (\<exists>c. database q pg = Inr c \<and> map (fixKeyReturn svc) (rows c) = []))))
   \<and> (\<forall>m. returnMap svc database q msg ra pg = Inl (NotFound m) \<longrightarrow> msg = Some m)
   \<and> (\<forall>e. database q pg = Inl e \<and> \<not> (isError1202 e \<and> truthy_msg msg \<noteq> None) \<longrightarrow>
          returnMap svc database q msg ra pg = Inl (Rejected e))
   \<and> (\<forall>c. database (GetQuery (collection svc) id' params) False = Inr c \<and> rows c = [] \<longrightarrow>
          get svc database id' params =
            Inl (NotFound (''No record found for id '' @ [CHR 0x27] @ id_text id' @ [CHR 0x27])))"
proof -
  have a: "(\<exists>m. returnMap svc database q msg ra pg = Inl (NotFound m)) \<longleftrightarrow>
     (truthy_msg msg \<noteq> None \<and>
       ((\<exists>e. database q pg = Inl e \<and> isError1202 e)
        \<or> (\<exists>c. database q pg = Inr c \<and> map (fixKeyReturn svc) (rows c) = [])))"
    by (rule returnMap_NotFound_iff)
  have b: "\<forall>m. returnMap svc database q msg ra pg = Inl (NotFound m) \<longrightarrow> msg = Some m"
    using returnMap_NotFound_message by blast
  have c: "\<forall>e. database q pg = Inl e \<and> \<not> (isError1202 e \<and> truthy_msg msg \<noteq> None) \<longrightarrow>
          returnMap svc database q msg ra pg = Inl (Rejected e)"
    using returnMap_passthrough [of database q pg _ msg svc ra] by blast
  have d: "\<forall>c. database (GetQuery (collection svc) id' params) False = Inr c \<and> rows c = [] \<longrightarrow>
          get svc database id' params =
            Inl (NotFound (''No record found for id '' @ [CHR 0x27] @ id_text id' @ [CHR 0x27]))"
    using get_no_document [of database svc id' params] by blast
  from a b c d show ?thesis by (intro conjI)
qed

theorem returnMap_raises_NotFound_witness:
  "get example_service (db_rows [] JUndefined) (IdStr ''42'') no_params
     = Inl (NotFound (''No record found for id '' @ [CHR 0x27] @ ''42'' @ [CHR 0x27]))
   \<and> returnMap example_service
        (db_rejects (JObj [(''isArangoError'', JBool True), (''errorNum'', JNum 1202)]))
        (GetQuery ''messages'' (IdStr ''42'') no_params) (Some ''gone'') True False
     = Inl (NotFound ''gone'')
   \<and> returnMap example_service
        (db_rejects (JObj [(''isArangoError'', JBool True), (''errorNum'', JNum 1203)]))
        (GetQuery ''messages'' (IdStr ''42'') no_params) (Some ''gone'') True False
     = Inl (Rejected (JObj [(''isArangoError'', JBool True), (''errorNum'', JNum 1203)]))"
proof -
  let ?q = "GetQuery ''messages'' (IdStr ''42'') no_params"
  let ?e2 = "JObj [(''isArangoError'', JBool True), (''errorNum'', JNum 1202)]"
  let ?e3 = "JObj [(''isArangoError'', JBool True), (''errorNum'', JNum 1203)]"
  have e2: "isError1202 ?e2" and e3: "\<not> isError1202 ?e3"
    by (simp_all add: isError1202_def getp_def)
  note t1 = returnMap_raises_NotFound [of example_service "db_rows [] JUndefined" ?q None True False
        "IdStr ''42''" no_params]
  note t2 = returnMap_raises_NotFound [of example_service "db_rejects ?e2" ?q "Some ''gone''" True False
        "IdStr ''42''" no_params]
  note t3 = returnMap_raises_NotFound [of example_service "db_rejects ?e3" ?q "Some ''gone''" True False
        "IdStr ''42''" no_params]
  have g: "get example_service (db_rows [] JUndefined) (IdStr ''42'') no_params
     = Inl (NotFound (''No record found for id '' @ [CHR 0x27] @ ''42'' @ [CHR 0x27]))"
    using t1 [THEN conjunct2, THEN conjunct2, THEN conjunct2]
    by (simp add: db_rows_def example_service_def)
  have "db_rejects ?e2 ?q False = Inl ?e2 \<and> isError1202 ?e2"
    using e2 by (simp add: db_rejects_def)
  then have "\<exists>m. returnMap example_service (db_rejects ?e2) ?q (Some ''gone'') True False = Inl (NotFound m)"
    using t2 [THEN conjunct1] by auto
  then obtain m where m: "returnMap example_service (db_rejects ?e2) ?q (Some ''gone'') True False
      = Inl (NotFound m)"
    by blast
  with t2 [THEN conjunct2, THEN conjunct1] have "Some ''gone'' = Some m"
    by blast
  with m have n: "returnMap example_service (db_rejects ?e2) ?q (Some ''gone'') True False
      = Inl (NotFound ''gone'')"
    by simp
  have "db_rejects ?e3 ?q False = Inl ?e3 \<and> \<not> (isError1202 ?e3 \<and> truthy_msg (Some ''gone'') \<noteq> None)"
    using e3 by (simp add: db_rejects_def)
  with t3 [THEN conjunct2, THEN conjunct2, THEN conjunct1]
  have r: "returnMap example_service (db_rejects ?e3) ?q (Some ''gone'') True False
      = Inl (Rejected ?e3)"
    by blast
  from g n r show ?thesis by (intro conjI)
qed

text \<open>
  C4 does not hold as it is written: with no row, no message and collapsing enabled,
  \<^verbatim>\<open>_returnMap\<close> returns \<^verbatim>\<open>result[0]\<close> of the empty array, which is
  \<^verbatim>\<open>undefined\<close>, not the empty array.
\<close>

theorem returnMap_empty_collapsed:
  "returnMap example_service (db_rows [] JUndefined) (RemoveFilter ''messages'' no_params)
       None True False = Inr JUndefined
   \<and> returnMap example_service (db_rows [] JUndefined) (RemoveFilter ''messages'' no_params)
       None True False \<noteq> Inr (JArr [])"
  by (simp add: returnMap_def db_rows_def)

text \<open>
  C4, amended. When pagination is inactive and \<^verbatim>\<open>NotFound\<close> is not raised (there is a
  row, or no message), \<^verbatim>\<open>_returnMap\<close> returns the array of the mapped rows when there
  is more than one row or collapsing is disabled; with collapsing enabled it returns the
  single mapped row unwrapped when there is exactly one, and \<^verbatim>\<open>undefined\<close> when there
  is none. It returns one unwrapped record exactly when collapsing is enabled and there
  is exactly one row.
\<close>

theorem returnMap_unpaginated:
  assumes "database q False = Inr c" and "rows c \<noteq> [] \<or> truthy_msg msg = None"
  shows "(length (rows c) > 1 \<or> \<not> removeArray \<longrightarrow>
            returnMap svc database q msg removeArray False
              = Inr (JArr (map (\<lambda>r. JObj (fixKeyReturn svc r)) (rows c))))
     \<and> (removeArray \<longrightarrow> (\<forall>r. rows c = [r] \<longrightarrow>
            returnMap svc database q msg removeArray False = Inr (JObj (fixKeyReturn svc r))))
     \<and> (removeArray \<and> rows c = [] \<longrightarrow>
            returnMap svc database q msg removeArray False = Inr JUndefined)
     \<and> ((\<exists>d. returnMap svc database q msg removeArray False = Inr (JObj d))
            \<longleftrightarrow> (removeArray \<and> length (rows c) = 1))"
proof -
  have none: "(if rows c = [] then truthy_msg msg else None) = None"
    using assms(2) by auto
  have eq: "returnMap svc database q msg removeArray False =
      (if length (rows c) > 1 \<or> \<not> removeArray
       then Inr (JArr (map (\<lambda>r. JObj (fixKeyReturn svc r)) (rows c)))
       else Inr (case rows c of [] \<Rightarrow> JUndefined | r # rs \<Rightarrow> JObj (fixKeyReturn svc r)))"
    using returnMap_cursor [of database q False c svc msg removeArray] assms(1) none
    by simp
  have len1: "length (rows c) = 1 \<longleftrightarrow> (\<exists>r. rows c = [r])"
    by (cases "rows c") auto
  show ?thesis
    unfolding eq len1
    by (cases "rows c") (auto split: list.splits)
qed

theorem returnMap_unpaginated_witness:
  "db_rows [[(''_key'', JStr ''k1''), (''name'', JStr ''a'')]] JUndefined
       (RemoveFilter ''messages'' no_params) False
     = Inr \<lparr>rows = [[(''_key'', JStr ''k1''), (''name'', JStr ''a'')]], fullCount = JUndefined\<rparr>
   \<and> returnMap example_service
        (db_rows [[(''_key'', JStr ''k1''), (''name'', JStr ''a'')]] JUndefined)
        (RemoveFilter ''messages'' no_params) None True False
     = Inr (JObj [(''_id'', JStr ''k1''), (''name'', JStr ''a'')])
   \<and> returnMap example_service
        (db_rows [[(''_key'', JStr ''k1''), (''name'', JStr ''a'')]] JUndefined)
        (RemoveFilter ''messages'' no_params) None False False
     = Inr (JArr [JObj [(''_id'', JStr ''k1''), (''name'', JStr ''a'')]])"
proof -
  let ?db = "db_rows [[(''_key'', JStr ''k1''), (''name'', JStr ''a'')]] JUndefined"
  let ?c = "\<lparr>rows = [[(''_key'', JStr ''k1''), (''name'', JStr ''a'')]], fullCount = JUndefined\<rparr>"
  have a: "?db (RemoveFilter ''messages'' no_params) False = Inr ?c"
    by (simp add: db_rows_def)
  have b: "rows ?c \<noteq> [] \<or> truthy_msg None = None"
    by simp
  have k: "fixKeyReturn example_service [(''_key'', JStr ''k1''), (''name'', JStr ''a'')]
             = [(''_id'', JStr ''k1''), (''name'', JStr ''a'')]"
    by (simp add: fixKeyReturn_def example_service_def getp_def omit_def spread_def)
  show ?thesis
    using a
      returnMap_unpaginated [where database = "?db" and q = "RemoveFilter ''messages'' no_params"
        and c = "?c" and msg = None and removeArray = True and svc = example_service, OF a b]
      returnMap_unpaginated [where database = "?db" and q = "RemoveFilter ''messages'' no_params"
        and c = "?c" and msg = None and removeArray = False and svc = example_service, OF a b]
    by (simp add: k)
qed

section \<open>The operations on a database\<close>












text \<open>
  C6. A call with \<^verbatim>\<open>paginate: false\<close> to a service with a pagination policy should
  give the bare array. \<^verbatim>\<open>find\<close> decides on the envelope from the policy of the
  service alone: the call below returns the envelope, with the limit 0, and the same call
  with no \<^verbatim>\<open>query\<close> throws a \<^verbatim>\<open>TypeError\<close> on reading
  \<^verbatim>\<open>params.query.$limit\<close>.
\<close>

theorem find_paginate_false_envelope:
  "find_svc example_service
     (db_rows [[(''_key'', JStr ''k1''), (''name'', JStr ''a'')]] (JNum 1))
     \<lparr>paginate = PaginateFalse, query = Some [(''name'', JStr ''a'')]\<rparr>
   = Inr (JObj [(''total'', JNum 1), (''limit'', JNum 0), (''skip'', JNum 0),
                (''data'', JArr [JObj [(''_id'', JStr ''k1''), (''name'', JStr ''a'')]])])
   \<and> find_svc example_service
     (db_rows [[(''_key'', JStr ''k1''), (''name'', JStr ''a'')]] (JNum 1))
     \<lparr>paginate = PaginateFalse, query = None\<rparr>
   = Inl TypeError"
  by (simp add: find_svc_def injectPagination_def returnMap_def db_rows_def example_service_def
        isEmpty_def fixKeyReturn_def getp_def omit_def spread_def js_or_def)

lemma remove_never_NotFound: "remove svc database id' params \<noteq> Inl (NotFound m)"
proof
  assume "remove svc database id' params = Inl (NotFound m)"
  then have "None = Some m"
    unfolding remove_def by (rule returnMap_NotFound_message)
  then show False by simp
qed

text \<open>
  C8. When an id is supplied, \<^verbatim>\<open>remove\<close> should remove the document of that id and
  no other. It tests the id with \<^verbatim>\<open>id && ...\<close>, which is false of the number 0 and of
  the empty string: for these ids it runs the query on the filter of the call, as if no
  id had been given. On a collection of two documents and a call with no filter, both are
  removed and returned, and the collection is left empty, where the id of a document
  removes that document alone. The sibling \<^verbatim>\<open>_replaceOrPatch\<close> tests
  \<^verbatim>\<open>ids[0] != null\<close> and takes these ids as ids.
\<close>

theorem remove_falsy_id_removes_all:
  "ids_supplied (One (IdNum 0))
   \<and> ids_supplied (One (IdStr []))
   \<and> replaceOrPatch_by_ids (One (IdNum 0))
   \<and> replaceOrPatch_by_ids (One (IdStr []))
   \<and> remove_query example_service (One (IdNum 0)) no_params = RemoveFilter ''messages'' no_params
   \<and> remove_query example_service (One (IdStr [])) no_params = RemoveFilter ''messages'' no_params
   \<and> remove example_service
        (arango plain [[(''_key'', JStr ''k1''), (''name'', JStr ''a'')],
                       [(''_key'', JStr ''k2''), (''name'', JStr ''b'')]])
        (One (IdNum 0)) no_params
      = Inr (JArr [JObj [(''_id'', JStr ''k1''), (''name'', JStr ''a'')],
                   JObj [(''_id'', JStr ''k2''), (''name'', JStr ''b'')]])
   \<and> arango_after plain [[(''_key'', JStr ''k1''), (''name'', JStr ''a'')],
                          [(''_key'', JStr ''k2''), (''name'', JStr ''b'')]]
        (remove_query example_service (One (IdNum 0)) no_params) = []
   \<and> remove example_service
        (arango plain [[(''_key'', JStr ''k1''), (''name'', JStr ''a'')],
                       [(''_key'', JStr ''k2''), (''name'', JStr ''b'')]])
        (One (IdStr ''k2'')) no_params
      = Inr (JObj [(''_id'', JStr ''k2''), (''name'', JStr ''b'')])
   \<and> arango_after plain [[(''_key'', JStr ''k1''), (''name'', JStr ''a'')],
                          [(''_key'', JStr ''k2''), (''name'', JStr ''b'')]]
        (remove_query example_service (One (IdStr ''k2'')) no_params)
      = [[(''_key'', JStr ''k1''), (''name'', JStr ''a'')]]"
  by (simp add: replaceOrPatch_by_ids_def remove_def remove_query_def returnMap_def arango_def
        arango_after_def matching_def plain_def spec_of_def no_params_def directives_def
        example_service_def fixKeyReturn_def getp_def omit_def spread_def)

theorem remove_falsy_id_removes_all_witness:
  "remove_query example_service (One (IdNum 0)) no_params = RemoveFilter ''messages'' no_params"
  using remove_falsy_id_removes_all by blast

end
